theory Spec2Isabelle
  imports Main "HOL-Library.Word"
begin

section \<open>JavaScript strings\<close>

text \<open>
  A JavaScript string is a sequence of UTF-16 code units, and \<open>.length\<close> counts code
  units.  The model keeps that: a string is a list of 16-bit words.  Literals of the
  source that are plain ASCII are written \<open>ascii ''...''\<close>; the few glyphs outside
  ASCII are given by their code unit.
\<close>

type_synonym jstring = "16 word list"

definition ascii :: "string \<Rightarrow> jstring" where
  "ascii s = map (\<lambda>c. of_nat (of_char c)) s"

text \<open>The white space and line terminators that \<open>String.prototype.trim\<close> strips.\<close>

definition is_ws :: "16 word \<Rightarrow> bool" where
  "is_ws c \<longleftrightarrow>
     c \<in> {0x09, 0x0A, 0x0B, 0x0C, 0x0D, 0x20, 0xA0, 0x1680, 0x2028, 0x2029,
          0x202F, 0x205F, 0x3000, 0xFEFF} \<or> (0x2000 \<le> c \<and> c \<le> 0x200A)"

definition trim :: "jstring \<Rightarrow> jstring" where
  "trim s = rev (dropWhile is_ws (rev (dropWhile is_ws s)))"


section \<open>JSON values and the JavaScript operations the pages use\<close>

text \<open>
  The responses of the backend reach the pages through \<open>res.json()\<close>, so the data
  the components read are JSON values.  \<open>Undefined\<close> is what reading a missing
  member gives.  An object is the list of its members; of a repeated key the first
  entry counts.  Numbers are restricted to integers: fractions and exponents are
  floating point and outside this model.
\<close>

datatype jsval =
    Undefined
  | Null
  | JBool bool
  | Num int
  | Str jstring
  | Arr "jsval list"
  | Obj "(jstring \<times> jsval) list"

text \<open>
  What can go wrong while a handler or a render runs: a \<open>TypeError\<close> of the
  engine, React's refusal of an object as a child, a \<open>fetch\<close> (or \<open>res.json()\<close>)
  that rejects.  \<open>Unmodelled\<close> marks the few inputs whose behaviour depends on
  JavaScript's numeric coercions (floating point), which the model does not
  follow; none of the results below rests on what happens there.
\<close>

datatype error = TypeError | InvalidChild | FetchFailed | Unmodelled

definition bindE :: "error + 'a \<Rightarrow> ('a \<Rightarrow> error + 'b) \<Rightarrow> error + 'b" where
  "bindE x f = (case x of Inl e \<Rightarrow> Inl e | Inr v \<Rightarrow> f v)"

text \<open>Evaluating a list of computations in order; the first exception wins.\<close>

fun collect :: "(error + 'a) list \<Rightarrow> error + 'a list" where
  "collect [] = Inr []"
| "collect (x # xs) = bindE x (\<lambda>v. bindE (collect xs) (\<lambda>vs. Inr (v # vs)))"

fun truthy :: "jsval \<Rightarrow> bool" where
  "truthy Undefined = False"
| "truthy Null = False"
| "truthy (JBool b) = b"
| "truthy (Num n) = (n \<noteq> 0)"
| "truthy (Str s) = (s \<noteq> [])"
| "truthy (Arr xs) = True"
| "truthy (Obj fs) = True"

text \<open>\<open>a || b\<close>.\<close>

definition or_else :: "jsval \<Rightarrow> jsval \<Rightarrow> jsval" where
  "or_else a b = (if truthy a then a else b)"

text \<open>
  Reading a data member \<open>v.name\<close> of a value that is neither \<open>null\<close> nor
  \<open>undefined\<close>.  The names the pages read this way (\<open>tip\<close>, \<open>source\<close>,
  \<open>questions\<close>, \<open>detail\<close>, ...) are defined by no prototype, so only an object's
  own member can answer.
\<close>

fun member :: "jsval \<Rightarrow> string \<Rightarrow> jsval" where
  "member (Obj fs) name = (case map_of fs (ascii name) of Some v \<Rightarrow> v | None \<Rightarrow> Undefined)"
| "member v name = Undefined"

text \<open>\<open>v.name\<close>: a \<open>TypeError\<close> on \<open>null\<close> and \<open>undefined\<close>.\<close>

definition read_prop :: "jsval \<Rightarrow> string \<Rightarrow> error + jsval" where
  "read_prop v name = (if v = Undefined \<or> v = Null then Inl TypeError else Inr (member v name))"

text \<open>\<open>v?.name\<close>.\<close>

definition read_opt :: "jsval \<Rightarrow> string \<Rightarrow> jsval" where
  "read_opt v name = (if v = Undefined \<or> v = Null then Undefined else member v name)"

text \<open>\<open>v.length\<close>, for a \<open>v\<close> that is neither \<open>null\<close> nor \<open>undefined\<close>.\<close>

fun js_length :: "jsval \<Rightarrow> jsval" where
  "js_length (Arr xs) = Num (int (length xs))"
| "js_length (Str s) = Num (int (length s))"
| "js_length v = member v ''length''"

text \<open>
  \<open>v > 0\<close>.  \<open>undefined\<close> converts to NaN and \<open>null\<close> to 0, a boolean to 0 or 1;
  strings, arrays and objects go through string-to-number conversion, which is not
  modelled.
\<close>

fun gt0 :: "jsval \<Rightarrow> error + bool" where
  "gt0 (Num n) = Inr (0 < n)"
| "gt0 (JBool b) = Inr b"
| "gt0 Undefined = Inr False"
| "gt0 Null = Inr False"
| "gt0 v = Inl Unmodelled"

text \<open>
  The receiver of \<open>.map(...)\<close> (or of \<open>.slice(0, 3).map(...)\<close>): an array gives its
  elements; any other JSON value has no callable \<open>map\<close>, and the call is a
  \<open>TypeError\<close>.
\<close>

fun elements :: "jsval \<Rightarrow> error + jsval list" where
  "elements (Arr xs) = Inr xs"
| "elements v = Inl TypeError"

text \<open>Decimal digits of a natural number, as \<open>Number.prototype.toString\<close> prints them.\<close>

fun digits :: "nat \<Rightarrow> jstring" where
  "digits n =
     (if n < 10 then [of_nat (48 + n)] else digits (n div 10) @ [of_nat (48 + n mod 10)])"

declare digits.simps [simp del]

text \<open>
  The text of an integer.  Beyond \<open>2^53\<close> a JSON number is no longer the integer it
  was written as, so the model stops there.
\<close>

definition number_text :: "int \<Rightarrow> error + jstring" where
  "number_text n =
     (if \<bar>n\<bar> < 2 ^ 53
      then Inr (if n < 0 then 0x2D # digits (nat (- n)) else digits (nat n))
      else Inl Unmodelled)"

fun join :: "jstring \<Rightarrow> jstring list \<Rightarrow> jstring" where
  "join sep [] = []"
| "join sep [s] = s"
| "join sep (s # t # ss) = s @ sep @ join sep (t # ss)"

text \<open>
  \<open>ToString\<close>, used for property keys (\<open>answers[q.id]\<close>) and for the message of
  \<open>new Error(v)\<close>.  An array joins its elements with commas, \<open>null\<close> and
  \<open>undefined\<close> elements giving the empty string.  A JSON object prints as
  \<open>[object Object]\<close> through the inherited \<open>toString\<close>; when it has a member of
  its own called \<open>toString\<close> (never callable, being JSON) the conversion finds no
  primitive and throws.
\<close>

fun ToString :: "jsval \<Rightarrow> error + jstring" where
  "ToString Undefined = Inr (ascii ''undefined'')"
| "ToString Null = Inr (ascii ''null'')"
| "ToString (JBool b) = Inr (ascii (if b then ''true'' else ''false''))"
| "ToString (Num n) = number_text n"
| "ToString (Str s) = Inr s"
| "ToString (Arr xs) =
     bindE (collect (map (\<lambda>x. if x = Undefined \<or> x = Null then Inr [] else ToString x) xs))
       (\<lambda>ss. Inr (join (ascii '','') ss))"
| "ToString (Obj fs) =
     (if ascii ''toString'' \<in> fst ` set fs then Inl TypeError
      else Inr (ascii ''[object Object]''))"

text \<open>
  \<open>JSON.stringify\<close>, as the value the produced text denotes: members whose value
  is \<open>undefined\<close> are left out, \<open>undefined\<close> array elements become \<open>null\<close>.
\<close>

fun JSON_stringify :: "jsval \<Rightarrow> jsval" where
  "JSON_stringify (Obj fs) =
     Obj (map (\<lambda>(k, v). (k, JSON_stringify v)) (filter (\<lambda>(k, v). v \<noteq> Undefined) fs))"
| "JSON_stringify (Arr xs) =
     Arr (map (\<lambda>v. if v = Undefined then Null else JSON_stringify v) xs)"
| "JSON_stringify v = v"


section \<open>Elements and what React displays\<close>

text \<open>
  What a component returns: static text, an expression child \<open>{v}\<close>, or an element
  with the props that carry data and its children.  Class names, icons and layout
  wrappers without content are left out.
\<close>

datatype node =
    Text jstring
  | Child jsval
  | Elem string "(string \<times> jsval) list" "node list"

text \<open>
  React's treatment of an expression child: a string or a number is text, \<open>null\<close>,
  \<open>undefined\<close> and booleans render nothing, an array renders its elements, and an
  object is refused (``Objects are not valid as a React child'').  An empty string
  displays nothing.
\<close>

fun child_text :: "jsval \<Rightarrow> error + jstring list" where
  "child_text (Str s) = Inr (if s = [] then [] else [s])"
| "child_text (Num n) = bindE (number_text n) (\<lambda>s. Inr [s])"
| "child_text (Arr xs) = bindE (collect (map child_text xs)) (\<lambda>ss. Inr (concat ss))"
| "child_text (Obj fs) = Inl InvalidChild"
| "child_text v = Inr []"

text \<open>
  The text fragments an element tree displays, in document order: the text among its
  children.  (Props, such as the \<open>value\<close> of a textarea, are kept in the tree but
  are not children.)
\<close>

fun shown :: "node \<Rightarrow> error + jstring list" where
  "shown (Text s) = Inr [s]"
| "shown (Child v) = child_text v"
| "shown (Elem tag props children) =
     bindE (collect (map shown children)) (\<lambda>ss. Inr (concat ss))"

text \<open>\<open>a && e\<close> as a child: the element when \<open>a\<close> is truthy, else the value \<open>a\<close> itself.\<close>

definition and_then :: "jsval \<Rightarrow> node \<Rightarrow> node" where
  "and_then a e = (if truthy a then e else Child a)"

text \<open>
  The pattern \<open>xs.length > 0 && (... xs.map(...) ...)\<close> that guards every list of
  the pages: a false guard leaves the child \<open>false\<close>.
\<close>

definition guarded :: "jsval \<Rightarrow> (jsval list \<Rightarrow> error + node) \<Rightarrow> error + node" where
  "guarded v body =
     bindE (gt0 (js_length v))
       (\<lambda>pos. if pos then bindE (elements v) body else Inr (Child (JBool False)))"

text \<open>\<open>xs.map((x, i) => f i x)\<close> with a callback that may throw.\<close>

definition map_index :: "(nat \<Rightarrow> 'a \<Rightarrow> error + 'b) \<Rightarrow> 'a list \<Rightarrow> error + 'b list" where
  "map_index f xs = collect (map (\<lambda>(i, x). f i x) (enumerate 0 xs))"


section \<open>InputStage: the analyze form\<close>

text \<open>
  \<open>pages/index.js\<close>, \<open>InputStage\<close>.  The component keeps the four text fields of
  \<open>form\<close>, the two files, the error line and the rules checkbox in React state.
  A \<open>File\<close> is modelled by its name and size.
\<close>

datatype jsfile = File jstring nat

record input_state =
  company :: jstring
  role :: jstring
  location :: jstring
  jobDescription :: jstring
  cvFile :: "jsfile option"
  linkedinFile :: "jsfile option"
  input_error :: jstring
  rulesChecked :: bool

definition InputStage_init :: input_state where
  "InputStage_init =
     \<lparr>company = [], role = [], location = [], jobDescription = [],
      cvFile = None, linkedinFile = None, input_error = [], rulesChecked = False\<rparr>"

text \<open>
  A \<open>FormData\<close> is the list of its entries in the order of the \<open>append\<close> calls; an
  entry's value is a string or a file.
\<close>

datatype form_value = FormString jstring | FormFile jsfile

type_synonym formdata = "(jstring \<times> form_value) list"

definition append_entry :: "formdata \<Rightarrow> string \<Rightarrow> form_value \<Rightarrow> formdata" where
  "append_entry fd name v = fd @ [(ascii name, v)]"

text \<open>
  \<open>handleSubmit\<close> (lines 247-270).  It clears the error, runs the four checks in the
  source's order, each setting its message and returning, and otherwise builds the form
  data and hands it to \<open>onAnalyze\<close>.  The result is the new component state and the
  form data sent, if any.  \<open>!s\<close> on a string is true exactly for the empty string,
  \<open>!cvFile\<close> exactly for \<open>null\<close>.
\<close>

definition InputStage_handleSubmit ::
  "jstring \<Rightarrow> input_state \<Rightarrow> input_state \<times> formdata option" where
  "InputStage_handleSubmit pwd st =
     (let st0 = st\<lparr>input_error := []\<rparr> in
      if \<not> rulesChecked st then
        (st0\<lparr>input_error := ascii ''Please confirm you have read the CV upload rules.''\<rparr>, None)
      else if company st = [] \<or> role st = [] \<or> location st = [] \<or> jobDescription st = [] then
        (st0\<lparr>input_error := ascii ''All fields are required.''\<rparr>, None)
      else case cvFile st of
        None \<Rightarrow> (st0\<lparr>input_error := ascii ''Please upload your CV as a PDF.''\<rparr>, None)
      | Some cv \<Rightarrow>
          if length (jobDescription st) < 100 then
            (st0\<lparr>input_error :=
               ascii ''Job description is too short. Please paste the full JD.''\<rparr>, None)
          else
            let fd = append_entry [] ''password'' (FormString pwd);
                fd = append_entry fd ''company'' (FormString (company st));
                fd = append_entry fd ''role'' (FormString (role st));
                fd = append_entry fd ''location'' (FormString (location st));
                fd = append_entry fd ''job_description'' (FormString (jobDescription st));
                fd = append_entry fd ''cv_file'' (FormFile cv);
                fd = (case linkedinFile st of
                        None \<Rightarrow> fd
                      | Some li \<Rightarrow> append_entry fd ''linkedin_file'' (FormFile li))
            in (st0, Some fd))"

text \<open>
  The events of the form.  A text input reports a change through \<open>update(field)\<close>;
  the three \<open>input\<close> elements carry \<open>maxLength={200}\<close> and the \<open>textarea\<close>
  \<open>maxLength={8000}\<close> (lines 341, 358), so the browser never lets the user produce a
  value longer than that: such a change event does not occur, and the model leaves the
  state as it is.  \<open>FileZone\<close> calls \<open>onFile\<close> only with a file (\<open>if (f) onFile(f)\<close>),
  so a file, once chosen, is never reset to \<open>null\<close>.
\<close>

datatype form_field = Company | Role | Location | JobDescription

fun maxLength :: "form_field \<Rightarrow> nat" where
  "maxLength JobDescription = 8000"
| "maxLength _ = 200"

fun update :: "form_field \<Rightarrow> jstring \<Rightarrow> input_state \<Rightarrow> input_state" where
  "update Company v st = st\<lparr>company := v\<rparr>"
| "update Role v st = st\<lparr>role := v\<rparr>"
| "update Location v st = st\<lparr>location := v\<rparr>"
| "update JobDescription v st = st\<lparr>jobDescription := v\<rparr>"

datatype input_event =
    Change form_field jstring
  | SetCvFile jsfile
  | SetLinkedinFile jsfile
  | SetRulesChecked bool
  | Submit

fun input_step :: "jstring \<Rightarrow> input_state \<Rightarrow> input_event \<Rightarrow> input_state" where
  "input_step pw st (Change f v) = (if length v \<le> maxLength f then update f v st else st)"
| "input_step pw st (SetCvFile f) = st\<lparr>cvFile := Some f\<rparr>"
| "input_step pw st (SetLinkedinFile f) = st\<lparr>linkedinFile := Some f\<rparr>"
| "input_step pw st (SetRulesChecked b) = st\<lparr>rulesChecked := b\<rparr>"
| "input_step pw st Submit = fst (InputStage_handleSubmit pw st)"

definition input_run :: "jstring \<Rightarrow> input_event list \<Rightarrow> input_state" where
  "input_run pw evs = foldl (input_step pw) InputStage_init evs"

definition entry :: "formdata \<Rightarrow> string \<Rightarrow> form_value option" where
  "entry fd name = map_of fd (ascii name)"

definition submit_messages :: "jstring set" where
  "submit_messages =
     {ascii ''Please confirm you have read the CV upload rules.'',
      ascii ''All fields are required.'',
      ascii ''Please upload your CV as a PDF.'',
      ascii ''Job description is too short. Please paste the full JD.''}"

definition submit_ready :: "input_state \<Rightarrow> bool" where
  "submit_ready st \<longleftrightarrow>
     rulesChecked st \<and> company st \<noteq> [] \<and> role st \<noteq> [] \<and> location st \<noteq> [] \<and>
     jobDescription st \<noteq> [] \<and> cvFile st \<noteq> None \<and> 100 \<le> length (jobDescription st)"


section \<open>Responses of the backend\<close>

text \<open>
  Both request handlers are written the same way (\<open>InputStageWrapper.handleAnalyze\<close>,
  lines 945-959, and \<open>QuestionsStage.handleGenerate\<close>, lines 483-504):
  \<^verbatim>\<open>const data = await res.json()
if (!res.ok) throw new Error(data.detail || '<fallback>')
on...(data)\<close>
  inside a \<open>try\<close> whose \<open>catch\<close> uses \<open>err.message\<close>.  A settled \<open>fetch\<close> is
  either rejected (network failure, or a body that is not JSON) or a response with its
  \<open>ok\<close> flag and parsed body.  The text of a message the engine itself produces is
  not fixed by the source; it is the parameter \<open>msg\<close>.
\<close>

datatype fetch_result = Rejected | Response bool jsval

definition response_outcome ::
  "(error \<Rightarrow> jstring) \<Rightarrow> string \<Rightarrow> fetch_result \<Rightarrow> jstring + jsval" where
  "response_outcome msg fallback r =
     (case r of
        Rejected \<Rightarrow> Inl (msg FetchFailed)
      | Response ok data \<Rightarrow>
          if ok then Inr data
          else (case bindE (read_prop data ''detail'')
                       (\<lambda>d. ToString (or_else d (Str (ascii fallback)))) of
                  Inl e \<Rightarrow> Inl (msg e)
                | Inr m \<Rightarrow> Inl m))"


section \<open>QuestionsStage\<close>

text \<open>
  \<open>QuestionsStage\<close> (lines 469-643) keeps the answers typed so far, the loading flag
  and an error line.  \<open>answers\<close> is an object used as a dictionary from the key of a
  question's id to the text of its textarea; it is modelled by the list of its members.
\<close>

record questions_state =
  answers :: "(jstring \<times> jstring) list"
  loading :: bool
  questions_error :: jstring

definition QuestionsStage_init :: questions_state where
  "QuestionsStage_init = \<lparr>answers = [], loading = False, questions_error = []\<rparr>"

text \<open>
  \<open>{...a, [id]: val}\<close>: the member is replaced where it stands, or added at the end.
  (JavaScript enumerates integer-like keys first; the order of members carries no
  meaning in the JSON sent.)
\<close>

fun set_member :: "jstring \<Rightarrow> 'v \<Rightarrow> (jstring \<times> 'v) list \<Rightarrow> (jstring \<times> 'v) list" where
  "set_member k v [] = [(k, v)]"
| "set_member k v ((k', v') # rest) =
     (if k = k' then (k, v) # rest else (k', v') # set_member k v rest)"

text \<open>
  The property key of a value, as \<open>{[id]: val}\<close> computes it: the value's string.
  It is \<open>ToString\<close> with the one case that function leaves open filled in by a
  parameter: \<open>big n\<close> is the text the engine prints for a JSON number \<open>n\<close>
  beyond \<open>2^53\<close> (that of the nearest double), which the source does not fix.
  The only failure left is the \<open>TypeError\<close> of an object with a member of its own
  called \<open>toString\<close>.
\<close>

fun property_key :: "(int \<Rightarrow> jstring) \<Rightarrow> jsval \<Rightarrow> error + jstring" where
  "property_key big Undefined = Inr (ascii ''undefined'')"
| "property_key big Null = Inr (ascii ''null'')"
| "property_key big (JBool b) = Inr (ascii (if b then ''true'' else ''false''))"
| "property_key big (Num n) =
     Inr (if \<bar>n\<bar> < 2 ^ 53
          then (if n < 0 then 0x2D # digits (nat (- n)) else digits (nat n))
          else big n)"
| "property_key big (Str s) = Inr s"
| "property_key big (Arr xs) =
     bindE (collect (map (\<lambda>x. if x = Undefined \<or> x = Null then Inr []
                              else property_key big x) xs))
       (\<lambda>ss. Inr (join (ascii '','') ss))"
| "property_key big (Obj fs) =
     (if ascii ''toString'' \<in> fst ` set fs then Inl TypeError
      else Inr (ascii ''[object Object]''))"

text \<open>
  \<open>updateAnswer(id, val)\<close> (line 481): \<open>setAnswers(a => ({ ...a, [id]: val }))\<close>.
  When the key cannot be computed the updater throws and the answers stay as they
  were.
\<close>

definition updateAnswer ::
  "(int \<Rightarrow> jstring) \<Rightarrow> jsval \<Rightarrow> jstring \<Rightarrow> questions_state \<Rightarrow> questions_state" where
  "updateAnswer big qid val st =
     (case property_key big qid of
        Inl e \<Rightarrow> st
      | Inr k \<Rightarrow> st\<lparr>answers := set_member k val (answers st)\<rparr>)"

text \<open>
  The members every object inherits from \<open>Object.prototype\<close>.  Reading
  \<open>answers[k]\<close> for such a \<open>k\<close> that was never set finds the inherited member and
  not \<open>undefined\<close>.
\<close>

definition inherited :: "jstring set" where
  "inherited = ascii ` {''constructor'', ''hasOwnProperty'', ''isPrototypeOf'',
     ''propertyIsEnumerable'', ''toLocaleString'', ''toString'', ''valueOf'', ''__proto__'',
     ''__defineGetter__'', ''__defineSetter__'', ''__lookupGetter__'', ''__lookupSetter__''}"

text \<open>\<open>answers[q.id] || ''\<close>, the value shown in the textarea of a question.\<close>

definition answer_value :: "(jstring \<times> jstring) list \<Rightarrow> jsval \<Rightarrow> error + jsval" where
  "answer_value ans qid =
     bindE (ToString qid)
       (\<lambda>k. case map_of ans k of
               Some a \<Rightarrow> Inr (Str a)
             | None \<Rightarrow> if k \<in> inherited then Inl Unmodelled else Inr (Str []))"

text \<open>One tip of the ``Heads Up'' card (lines 530-547).\<close>

definition tip_card :: "nat \<Rightarrow> jsval \<Rightarrow> error + node" where
  "tip_card i tip =
     bindE (read_prop tip ''tip'') (\<lambda>advice.
     bindE (read_prop tip ''source_url'') (\<lambda>url.
     bindE (read_prop tip ''source'') (\<lambda>src.
     bindE (read_prop tip ''action_taken'') (\<lambda>act.
       Inr (Elem ''div'' [(''key'', Num (int i))]
             [Elem ''p'' [] [Child advice],
              Elem ''div'' []
                [if truthy url
                 then Elem ''a'' [(''href'', url)] [Text [0x2197, 0x20], Child src]
                 else Elem ''span'' [] [Child src],
                 and_then act
                   (Elem ''Tag'' [(''color'', Str (ascii ''success''))] [Child act])]])))))"

definition heads_up_card :: "jsval list \<Rightarrow> error + node" where
  "heads_up_card headsUp =
     bindE (map_index tip_card headsUp) (\<lambda>cards.
       Inr (Elem ''Card'' []
             [Elem ''h3'' []
                [Text (ascii ''Heads Up '' @ [0x2014] @ ascii '' Recruiter Intelligence'')],
              Elem ''div'' [] cards]))"

text \<open>Gaps, AI words and auto-fixes (lines 554-585): every element is a child as it is.\<close>

definition gaps_card :: "jsval \<Rightarrow> jsval list \<Rightarrow> error + node" where
  "gaps_card gaps xs =
     Inr (Elem ''Card'' []
           [Elem ''p'' [] [Text (ascii ''GAPS DETECTED (''), Child (js_length gaps), Text (ascii '')'')],
            Elem ''ul'' []
              (map (\<lambda>(i, g). Elem ''li'' [(''key'', Num (int i))]
                                [Elem ''span'' [] [Text [0x2192]], Child g])
                 (enumerate 0 xs))])"

definition ai_words_card :: "jsval \<Rightarrow> jsval list \<Rightarrow> error + node" where
  "ai_words_card aiWords xs =
     Inr (Elem ''Card'' []
           [Elem ''p'' []
              [Text (ascii ''AI WORDS TO REMOVE (''), Child (js_length aiWords), Text (ascii '')'')],
            Elem ''div'' []
              (map (\<lambda>(i, w). Elem ''Tag'' [(''key'', Num (int i)), (''color'', Str (ascii ''danger''))]
                                [Child w])
                 (enumerate 0 xs))])"

definition auto_fixes_card :: "jsval \<Rightarrow> jsval list \<Rightarrow> error + node" where
  "auto_fixes_card autoFixes xs =
     Inr (Elem ''Card'' []
           [Elem ''p'' []
              [Text (ascii ''AUTO-FIXES (''), Child (js_length autoFixes), Text (ascii '')'')],
            Elem ''ul'' []
              (map (\<lambda>(i, f). Elem ''li'' [(''key'', Num (int i))]
                                [Elem ''span'' [] [Text [0x2713]], Child f])
                 (enumerate 0 xs))])"

text \<open>The LinkedIn mismatches (lines 589-598): again every element is a child as it is.\<close>

definition contradiction_row :: "nat \<Rightarrow> jsval \<Rightarrow> node" where
  "contradiction_row i c =
     Elem ''div'' [(''key'', Num (int i))] [Elem ''span'' [] [Text [0x26A0]], Child c]"

definition contradictions_card :: "jsval list \<Rightarrow> error + node" where
  "contradictions_card xs =
     Inr (Elem ''Card'' []
           (Elem ''p'' [] [Text (ascii ''LINKEDIN VS CV MISMATCHES'')] #
            map (\<lambda>(i, c). contradiction_row i c) (enumerate 0 xs)))"

text \<open>One question with its textarea (lines 605-622).\<close>

definition question_block :: "(jstring \<times> jstring) list \<Rightarrow> nat \<Rightarrow> jsval \<Rightarrow> error + node" where
  "question_block ans i q =
     bindE (read_prop q ''id'') (\<lambda>qid.
     bindE (read_prop q ''question'') (\<lambda>question.
     bindE (read_prop q ''context'') (\<lambda>ctx.
     bindE (answer_value ans qid) (\<lambda>val.
       Inr (Elem ''div'' [(''key'', qid)]
             [Elem ''div'' []
                [Elem ''span'' [] [Text (ascii ''Q''), Child (Num (int i + 1))],
                 Elem ''div'' [] [Elem ''p'' [] [Child question], Elem ''p'' [] [Child ctx]]],
              Elem ''textarea''
                [(''rows'', Num 2), (''value'', val),
                 (''placeholder'',
                  Str (ascii ''Your answer (or leave blank if not applicable)...''))]
                []])))))"

definition questions_card :: "(jstring \<times> jstring) list \<Rightarrow> jsval list \<Rightarrow> error + node" where
  "questions_card ans questions =
     bindE (map_index (question_block ans) questions) (\<lambda>blocks.
       Inr (Elem ''Card'' []
             [Elem ''p'' [] [Text (ascii ''Answer these to sharpen your CV'')],
              Elem ''div'' [] blocks]))"

text \<open>
  The six lists the component takes from the analysis (lines 474-479), each
  \<open>analysisData?.name || []\<close>.
\<close>

definition list_of :: "jsval \<Rightarrow> string \<Rightarrow> jsval" where
  "list_of analysisData name = or_else (read_opt analysisData name) (Arr [])"

text \<open>What the component returns (lines 506-642).\<close>

definition QuestionsStage :: "jsval \<Rightarrow> questions_state \<Rightarrow> error + node" where
  "QuestionsStage analysisData st =
     (let questions = list_of analysisData ''questions'';
          gaps = list_of analysisData ''gaps_found'';
          autoFixes = list_of analysisData ''auto_fixes'';
          headsUp = list_of analysisData ''heads_up_tips'';
          aiWords = list_of analysisData ''ai_words_detected'';
          contradictions = list_of analysisData ''linkedin_contradictions''
      in
      bindE (guarded headsUp heads_up_card) (\<lambda>tips.
      bindE (guarded gaps (gaps_card gaps)) (\<lambda>gapsCard.
      bindE (guarded aiWords (ai_words_card aiWords)) (\<lambda>wordsCard.
      bindE (guarded autoFixes (auto_fixes_card autoFixes)) (\<lambda>fixesCard.
      bindE (guarded contradictions contradictions_card) (\<lambda>mismatches.
      bindE (guarded questions (questions_card (answers st))) (\<lambda>questionsCard.
        Inr (Elem ''div'' []
              [Elem ''header'' []
                 [Elem ''span'' [] [Text (ascii ''ApplySharp'')],
                  Elem ''Tag'' [(''color'', Str (ascii ''gold''))]
                    [Text (ascii ''Analysis Complete'')]],
               Elem ''div'' []
                 [Elem ''div'' []
                    [Elem ''p'' [] [Text (ascii ''Step 02'')],
                     Elem ''h2'' [] [Text (ascii ''We found some things'')],
                     Elem ''p'' []
                       [Text (ascii (''Answer a few questions to help us personalise your CV '' @
                          ''accurately. Then we'' @ [CHR 0x27] @ ''ll generate everything.''))]],
                  tips,
                  Elem ''div'' [] [gapsCard, wordsCard, fixesCard],
                  mismatches,
                  questionsCard,
                  and_then (Str (questions_error st))
                    (Elem ''div'' [] [Child (Str (questions_error st))]),
                  Elem ''div'' []
                    [Elem ''GoldButton''
                       [(''loading'', JBool (loading st)), (''disabled'', JBool (loading st))]
                       [Child (Str (if loading st
                          then ascii ''Generating your application...''
                          else ascii ''Generate My CV, Cover Letter & Tips '' @ [0x2192]))]],
                  Elem ''p'' []
                    [Text (ascii ''This will take 30'' @ [0x2013] @ ascii ''60 seconds'')]]]))))))))"

text \<open>
  \<open>handleGenerate\<close> up to the \<open>fetch\<close> (lines 483-495): the error line is cleared,
  the loading flag set, and the body built.  Reading \<open>analysisData.session_id\<close> can
  throw; the \<open>catch\<close> then shows the message and \<open>finally\<close> resets the flag, and
  nothing is sent.  The result is the new state and the JSON body sent, if any.
\<close>

definition generate_body :: "jstring \<Rightarrow> jsval \<Rightarrow> (jstring \<times> jstring) list \<Rightarrow> error + jsval" where
  "generate_body pwd analysisData ans =
     bindE (read_prop analysisData ''session_id'') (\<lambda>sid.
       Inr (JSON_stringify
             (Obj [(ascii ''password'', Str pwd),
                   (ascii ''session_id'', sid),
                   (ascii ''user_answers'', Obj (map (\<lambda>(k, a). (k, Str a)) ans))])))"

definition QuestionsStage_handleGenerate ::
  "(error \<Rightarrow> jstring) \<Rightarrow> jstring \<Rightarrow> jsval \<Rightarrow> questions_state \<Rightarrow> questions_state \<times> jsval option" where
  "QuestionsStage_handleGenerate msg pwd analysisData st =
     (let st1 = st\<lparr>questions_error := [], loading := True\<rparr> in
      case generate_body pwd analysisData (answers st) of
        Inl e \<Rightarrow> (st1\<lparr>questions_error := msg e, loading := False\<rparr>, None)
      | Inr body \<Rightarrow> (st1, Some body))"

text \<open>
  The rest of \<open>handleGenerate\<close> (lines 496-503), once the \<open>fetch\<close> has settled: the
  data handed to \<open>onGenerate\<close>, if any, and the new state.
\<close>

definition QuestionsStage_settled ::
  "(error \<Rightarrow> jstring) \<Rightarrow> fetch_result \<Rightarrow> questions_state \<Rightarrow> questions_state \<times> jsval option" where
  "QuestionsStage_settled msg r st =
     (case response_outcome msg ''Generation failed.'' r of
        Inl m \<Rightarrow> (st\<lparr>questions_error := m, loading := False\<rparr>, None)
      | Inr data \<Rightarrow> (st\<lparr>loading := False\<rparr>, Some data))"

text \<open>
  The events of the stage.  Typing into the textarea of the \<open>i\<close>-th question calls
  \<open>updateAnswer(q.id, e.target.value)\<close> (line 617); the textarea belongs to an
  element \<open>q\<close> of \<open>questions\<close> whose \<open>q.id\<close> could be read.  The model lets
  the event occur for every such question, whatever else the page displays, so that
  every run of the page is a run of the model.  The button is disabled while
  \<open>loading\<close>.
\<close>

datatype questions_event = TypeAnswer nat jstring | ClickGenerate | Settled fetch_result

definition questions_of :: "jsval \<Rightarrow> jsval list" where
  "questions_of analysisData =
     (case list_of analysisData ''questions'' of Arr qs \<Rightarrow> qs | _ \<Rightarrow> [])"

fun questions_step ::
  "(int \<Rightarrow> jstring) \<Rightarrow> (error \<Rightarrow> jstring) \<Rightarrow> jstring \<Rightarrow> jsval \<Rightarrow>
   questions_state \<Rightarrow> questions_event \<Rightarrow> questions_state" where
  "questions_step big msg pwd d st (TypeAnswer i val) =
     (if i < length (questions_of d)
      then (case read_prop (questions_of d ! i) ''id'' of
              Inl e \<Rightarrow> st
            | Inr qid \<Rightarrow> updateAnswer big qid val st)
      else st)"
| "questions_step big msg pwd d st ClickGenerate =
     (if loading st then st else fst (QuestionsStage_handleGenerate msg pwd d st))"
| "questions_step big msg pwd d st (Settled r) =
     (if loading st then fst (QuestionsStage_settled msg r st) else st)"

definition questions_run ::
  "(int \<Rightarrow> jstring) \<Rightarrow> (error \<Rightarrow> jstring) \<Rightarrow> jstring \<Rightarrow> jsval \<Rightarrow>
   questions_event list \<Rightarrow> questions_state" where
  "questions_run big msg pwd d evs =
     foldl (questions_step big msg pwd d) QuestionsStage_init evs"


section \<open>ResultsStage: the tips banner\<close>

text \<open>
  Of \<open>ResultsStage\<close> only the banner of applied tips is modelled (lines 675 and
  713-724): the first three tips, each cut at its first full stop and at 50 code
  units.  \<open>t.tip.split(...)\<close> needs \<open>t.tip\<close> to be a string; on anything else the
  call is a \<open>TypeError\<close>.
\<close>

definition banner_tag :: "nat \<Rightarrow> jsval \<Rightarrow> error + node" where
  "banner_tag i t =
     bindE (read_prop t ''tip'') (\<lambda>advice.
       case advice of
         Str s \<Rightarrow>
           Inr (Elem ''Tag'' [(''key'', Num (int i)), (''color'', Str (ascii ''gold''))]
                 [Child (Str (take 50 (takeWhile (\<lambda>c. c \<noteq> 0x2E) s)))])
       | _ \<Rightarrow> Inl TypeError)"

definition ResultsStage_banner :: "jsval \<Rightarrow> error + node" where
  "ResultsStage_banner data =
     (let headsUp = list_of data ''heads_up_tips'' in
      guarded headsUp (\<lambda>xs.
        bindE (map_index banner_tag (take 3 xs)) (\<lambda>tags.
          Inr (Elem ''div'' []
                [Elem ''span'' [] [Text ([0x26A1] @ ascii '' RECRUITER TIPS APPLIED'')],
                 Elem ''div'' [] tags]))))"


section \<open>App: the stages\<close>

text \<open>\<open>STAGES\<close> (lines 9-16) and the state of \<open>App\<close> (lines 878-881).\<close>

datatype stage = PASSWORD | INPUT | ANALYZING | QUESTIONS | GENERATING | RESULTS

record app =
  stage :: stage
  password :: jstring
  analysisData :: jsval
  resultData :: jsval

definition App_init :: app where
  "App_init = \<lparr>stage = PASSWORD, password = [], analysisData = Null, resultData = Null\<rparr>"

definition handlePasswordSuccess :: "jstring \<Rightarrow> app \<Rightarrow> app" where
  "handlePasswordSuccess pwd s = s\<lparr>password := pwd, stage := INPUT\<rparr>"

definition handleAnalyze :: "jsval \<Rightarrow> app \<Rightarrow> app" where
  "handleAnalyze data s = s\<lparr>analysisData := data, stage := QUESTIONS\<rparr>"

definition handleGenerate :: "jsval \<Rightarrow> app \<Rightarrow> app" where
  "handleGenerate data s = s\<lparr>resultData := data, stage := RESULTS\<rparr>"

definition handleRestart :: "app \<Rightarrow> app" where
  "handleRestart s = s\<lparr>analysisData := Null, resultData := Null, stage := INPUT\<rparr>"

text \<open>
  \<open>PasswordStage.handleSubmit\<close> (lines 165-169): the error message, or the trimmed
  password handed to \<open>onSuccess\<close>.
\<close>

definition PasswordStage_handleSubmit :: "jstring \<Rightarrow> jstring + jstring" where
  "PasswordStage_handleSubmit pwd =
     (if trim pwd = [] then Inl (ascii ''Enter the access password.'') else Inr (trim pwd))"

text \<open>
  The requests the page sends: the form data of \<open>/api/analyze\<close> and the JSON body of
  \<open>/api/generate\<close>.
\<close>

datatype request = AnalyzeRequest formdata | GenerateRequest jsval

fun request_password :: "request \<Rightarrow> form_value option" where
  "request_password (AnalyzeRequest fd) = map_of fd (ascii ''password'')"
| "request_password (GenerateRequest body) =
     (case member body ''password'' of Str p \<Rightarrow> Some (FormString p) | _ \<Rightarrow> None)"

text \<open>
  The events of the page.  A component can only be used while it is mounted, and
  \<open>App\<close> mounts exactly the component of the current stage (lines 920-936); an event
  for another stage does not occur and leaves the state as it is.  Each event carries
  the local state of the component it comes from; the generate button is disabled
  while that state is \<open>loading\<close>.  A successful generate response
  sets the stage to \<open>GENERATING\<close> and resolves a promise whose callback is
  \<open>handleGenerate\<close> (lines 929-932); no control is mounted in between.
\<close>

datatype app_event =
    PasswordSubmit jstring
  | FormSubmit input_state
  | AnalyzeSettled fetch_result
  | GenerateClick questions_state
  | GenerateSettled fetch_result
  | Restart

fun app_step :: "(error \<Rightarrow> jstring) \<Rightarrow> app \<Rightarrow> app_event \<Rightarrow> app \<times> request list" where
  "app_step msg s (PasswordSubmit pwd) =
     (if stage s = PASSWORD
      then (case PasswordStage_handleSubmit pwd of
              Inl e \<Rightarrow> (s, [])
            | Inr p \<Rightarrow> (handlePasswordSuccess p s, []))
      else (s, []))"
| "app_step msg s (FormSubmit st) =
     (if stage s = INPUT
      then (case snd (InputStage_handleSubmit (password s) st) of
              None \<Rightarrow> (s, [])
            | Some fd \<Rightarrow> (s\<lparr>stage := ANALYZING\<rparr>, [AnalyzeRequest fd]))
      else (s, []))"
| "app_step msg s (AnalyzeSettled r) =
     (if stage s = ANALYZING
      then (case response_outcome msg ''Analysis failed.'' r of
              Inl m \<Rightarrow> (s\<lparr>stage := INPUT\<rparr>, [])
            | Inr data \<Rightarrow> (handleAnalyze data s, []))
      else (s, []))"
| "app_step msg s (GenerateClick st) =
     (if stage s = QUESTIONS \<and> \<not> loading st
      then (case snd (QuestionsStage_handleGenerate msg (password s) (analysisData s) st) of
              None \<Rightarrow> (s, [])
            | Some body \<Rightarrow> (s, [GenerateRequest body]))
      else (s, []))"
| "app_step msg s (GenerateSettled r) =
     (if stage s = QUESTIONS
      then (case response_outcome msg ''Generation failed.'' r of
              Inl m \<Rightarrow> (s, [])
            | Inr data \<Rightarrow> (handleGenerate data (s\<lparr>stage := GENERATING\<rparr>), []))
      else (s, []))"
| "app_step msg s Restart = (if stage s = RESULTS then (handleRestart s, []) else (s, []))"

text \<open>A run of the page: the final state and the requests sent, in order.\<close>

fun app_run :: "(error \<Rightarrow> jstring) \<Rightarrow> app \<Rightarrow> app_event list \<Rightarrow> app \<times> request list" where
  "app_run msg s [] = (s, [])"
| "app_run msg s (ev # evs) =
     (let (s1, sent) = app_step msg s ev; (s2, rest) = app_run msg s1 evs
      in (s2, sent @ rest))"


section \<open>Which members of a value a component reads\<close>

text \<open>
  \<open>restrict names v\<close> keeps of an object only the members called one of \<open>names\<close>,
  and \<open>without name v\<close> drops one member.  A component reads only \<open>names\<close> of its
  argument when restricting the argument never changes what it returns.
\<close>

fun restrict :: "string list \<Rightarrow> jsval \<Rightarrow> jsval" where
  "restrict names (Obj fs) = Obj (filter (\<lambda>(k, v). k \<in> ascii ` set names) fs)"
| "restrict names v = v"

fun without :: "string \<Rightarrow> jsval \<Rightarrow> jsval" where
  "without name (Obj fs) = Obj (filter (\<lambda>(k, v). k \<noteq> ascii name) fs)"
| "without name v = v"

definition tip_fields :: "string list" where
  "tip_fields = [''tip'', ''source'', ''source_url'', ''action_taken'']"

definition analysis_fields :: "string list" where
  "analysis_fields =
     [''session_id'', ''questions'', ''gaps_found'', ''auto_fixes'', ''heads_up_tips'',
      ''ai_words_detected'', ''linkedin_contradictions'']"

text \<open>
  A tip as the pages read it: the advice under \<open>tip\<close>, the source, and optionally
  the source's address and the action taken.
\<close>

definition tip_record :: "jstring \<Rightarrow> jstring \<Rightarrow> jstring option \<Rightarrow> jstring option \<Rightarrow> jsval" where
  "tip_record advice src url act =
     Obj ([(ascii ''tip'', Str advice), (ascii ''source'', Str src)] @
          (case url of None \<Rightarrow> [] | Some u \<Rightarrow> [(ascii ''source_url'', Str u)]) @
          (case act of None \<Rightarrow> [] | Some a \<Rightarrow> [(ascii ''action_taken'', Str a)]))"

text \<open>The fragments a string displays: none when it is empty.\<close>

definition fragment :: "jstring \<Rightarrow> jstring list" where
  "fragment s = (if s = [] then [] else [s])"

text \<open>What React displays of a component's result.\<close>

definition display :: "error + node \<Rightarrow> error + jstring list" where
  "display r = bindE r shown"


text \<open>
  What the page lets out of an analysis in a fresh \<open>QuestionsStage\<close>: the text it
  displays and the generate request it would send.
\<close>

definition page_output :: "jsval \<Rightarrow> (error + jstring list) \<times> (error + jsval)" where
  "page_output d = (display (QuestionsStage d QuestionsStage_init), generate_body [] d [])"


text \<open>The key under which the answer to a question is kept: that of its id.\<close>

definition question_key :: "(int \<Rightarrow> jstring) \<Rightarrow> jsval \<Rightarrow> error + jstring" where
  "question_key big q = bindE (read_prop q ''id'') (property_key big)"

text \<open>
  What the user typed, read off the events alone: an event that types \<open>val\<close> into
  the textarea of the \<open>i\<close>-th question is the pair of that question's key and
  \<open>val\<close>; \<open>typings\<close> lists these pairs in the order of typing.
\<close>

fun typing :: "(int \<Rightarrow> jstring) \<Rightarrow> jsval \<Rightarrow> questions_event \<Rightarrow> (jstring \<times> jstring) option" where
  "typing big d (TypeAnswer i val) =
     (if i < length (questions_of d)
      then (case question_key big (questions_of d ! i) of
              Inl e \<Rightarrow> None
            | Inr k \<Rightarrow> Some (k, val))
      else None)"
| "typing big d ev = None"

fun typings :: "(int \<Rightarrow> jstring) \<Rightarrow> jsval \<Rightarrow> questions_event list \<Rightarrow> (jstring \<times> jstring) list" where
  "typings big d [] = []"
| "typings big d (ev # evs) =
     (case typing big d ev of
        None \<Rightarrow> typings big d evs
      | Some ka \<Rightarrow> ka # typings big d evs)"

text \<open>The text the user typed last for a key, if any was typed.\<close>

definition last_typed ::
  "(int \<Rightarrow> jstring) \<Rightarrow> jsval \<Rightarrow> questions_event list \<Rightarrow> jstring \<Rightarrow> jstring option" where
  "last_typed big d evs = map_of (rev (typings big d evs))"

text \<open>The keys of the questions of an analysis.\<close>

definition question_keys :: "(int \<Rightarrow> jstring) \<Rightarrow> jsval \<Rightarrow> jstring set" where
  "question_keys big d = {k. \<exists>q \<in> set (questions_of d). question_key big q = Inr k}"


section \<open>The backend, as the specification describes it\<close>

text \<open>
  The sources hold the pages and the setup guide only; the pipeline behind
  \<open>/api/analyze\<close> and \<open>/api/generate\<close> is not among them.  The definitions of
  this section follow the specification's description of it.
\<close>

subsection \<open>Intelligence Gatherer\<close>

text \<open>
  Modelled from the spec: how a query of the missing Intelligence Gatherer (section
  4.1) settles.  Each of the three containers returns findings, fails, or times out.
\<close>

datatype 'f settled = Returned "'f list" | QueryFailed | QueryTimedOut

text \<open>
  Modelled from the spec: the errors of the missing analysis (section 7) that the
  components below can raise.
\<close>

datatype analyze_error = InvalidInput | IntelligenceUnavailable

text \<open>
  Modelled from the spec: what a container of the missing gatherer contributes.  ``A
  container that fails or times out returns an empty finding set rather than failing
  the whole gather''.
\<close>

fun findings_of :: "'f settled \<Rightarrow> 'f list" where
  "findings_of (Returned fs) = fs"
| "findings_of QueryFailed = []"
| "findings_of QueryTimedOut = []"

text \<open>
  Modelled from the spec: \<open>gather(job) -> {atsFindings, cultureFindings,
  roleFindings}\<close> of the missing Intelligence Gatherer (section 4.1), once its three
  queries have settled: it ``fails with \<open>IntelligenceUnavailable\<close> only if zero
  containers return any findings''.
\<close>

definition gather ::
  "'f settled \<Rightarrow> 'f settled \<Rightarrow> 'f settled \<Rightarrow> analyze_error + 'f list \<times> 'f list \<times> 'f list" where
  "gather ats culture role_c =
     (let atsFindings = findings_of ats;
          cultureFindings = findings_of culture;
          roleFindings = findings_of role_c
      in if atsFindings = [] \<and> cultureFindings = [] \<and> roleFindings = []
         then Inl IntelligenceUnavailable
         else Inr (atsFindings, cultureFindings, roleFindings))"

text \<open>
  Modelled from the spec: the three containers of the missing Intelligence Gatherer
  (glossary): ATS, Culture and Role.
\<close>

datatype container = ATS | Culture | RoleC

text \<open>
  Modelled from the spec: the fan-out and fan-in of the missing gatherer (sections 4.1
  and 5).  The three queries run concurrently, ``each bounded by its own timeout'',
  with ``no ordering guarantee''; what the caller sees is a sequence of settlements,
  each of one container, in any order.  A container settles once: its first
  settlement stands (a result that arrives after the timeout has fired is too late,
  and so is a timeout after the result).
\<close>

definition settle ::
  "container \<Rightarrow> 'f settled \<Rightarrow> (container \<Rightarrow> 'f settled option) \<Rightarrow> container \<Rightarrow> 'f settled option" where
  "settle c outcome queries =
     (case queries c of None \<Rightarrow> queries(c \<mapsto> outcome) | Some earlier \<Rightarrow> queries)"

text \<open>
  Modelled from the spec: the state of the three queries of the missing gatherer after
  a sequence of settlements, starting with all three pending.
\<close>

definition queries_after ::
  "(container \<times> 'f settled) list \<Rightarrow> container \<Rightarrow> 'f settled option" where
  "queries_after settlements =
     foldl (\<lambda>queries (c, outcome). settle c outcome queries) (\<lambda>c. None) settlements"

text \<open>
  Modelled from the spec: the join of the missing gatherer; ``the caller suspends
  until all three have either completed or timed out, then proceeds with whatever
  subset succeeded''.  \<open>None\<close>: the caller is still suspended.
\<close>

definition gather_run ::
  "(container \<times> 'f settled) list \<Rightarrow> (analyze_error + 'f list \<times> 'f list \<times> 'f list) option" where
  "gather_run settlements =
     (let queries = queries_after settlements in
      case (queries ATS, queries Culture, queries RoleC) of
        (Some ats, Some culture, Some role_c) \<Rightarrow> Some (gather ats culture role_c)
      | _ \<Rightarrow> None)"



text \<open>
  The first settlement of a container in a sequence of settlements, and the findings
  it contributes.
\<close>

definition first_settlement :: "(container \<times> 'f settled) list \<Rightarrow> container \<Rightarrow> 'f settled option" where
  "first_settlement settlements c = map_of settlements c"


subsection \<open>Session Store and Generation Engine\<close>

text \<open>
  Modelled from the spec: the state of the missing Session Store (section 4.5).  A
  session is held under an opaque id together with its time of creation; ids are
  handed out in sequence and never reused.  Besides the sessions the store remembers
  for which ids \<open>generate\<close> was called.
\<close>

record 'd store =
  sessions :: "nat \<rightharpoonup> nat \<times> 'd"
  generated :: "nat set"
  next_id :: nat

text \<open>Modelled from the spec: the missing Session Store before any call.\<close>

definition empty_store :: "'d store" where
  "empty_store = \<lparr>sessions = Map.empty, generated = {}, next_id = 0\<rparr>"

text \<open>
  Modelled from the spec: the TTL of the missing Session Store, ``documented default:
  1 hour'', in seconds.
\<close>

definition ttl :: nat where
  "ttl = 3600"

text \<open>
  Modelled from the spec: expiry in the missing Session Store; sessions ``expire after
  a fixed TTL measured from creation''.
\<close>

definition expired :: "nat \<Rightarrow> nat \<Rightarrow> bool" where
  "expired now createdAt \<longleftrightarrow> createdAt + ttl \<le> now"

text \<open>Modelled from the spec: \<open>create(sessionData) -> id\<close> of the missing Session Store.\<close>

definition create :: "nat \<Rightarrow> 'd \<Rightarrow> 'd store \<Rightarrow> nat \<times> 'd store" where
  "create now sessionData s =
     (next_id s,
      s\<lparr>sessions := (sessions s)(next_id s \<mapsto> (now, sessionData)), next_id := Suc (next_id s)\<rparr>)"

text \<open>Modelled from the spec: \<open>delete(id) -> void\<close> of the missing Session Store.\<close>

definition delete :: "nat \<Rightarrow> 'd store \<Rightarrow> 'd store" where
  "delete i s = s\<lparr>sessions := (sessions s)(i := None)\<rparr>"

text \<open>
  Modelled from the spec: \<open>get(id) -> Session | NotFound\<close> of the missing Session
  Store; ``\<open>get\<close> on an expired session returns \<open>NotFound\<close> and triggers eager
  deletion''.  \<open>None\<close> stands for \<open>NotFound\<close>.
\<close>

definition get :: "nat \<Rightarrow> nat \<Rightarrow> 'd store \<Rightarrow> 'd option \<times> 'd store" where
  "get now i s =
     (case sessions s i of
        None \<Rightarrow> (None, s)
      | Some (createdAt, d) \<Rightarrow> if expired now createdAt then (None, delete i s) else (Some d, s))"

text \<open>Modelled from the spec: the expiry sweep of the missing Session Store (section 5).\<close>

definition sweep :: "nat \<Rightarrow> 'd store \<Rightarrow> 'd store" where
  "sweep now s =
     s\<lparr>sessions := (\<lambda>i. case sessions s i of
                          None \<Rightarrow> None
                        | Some (createdAt, d) \<Rightarrow>
                            if expired now createdAt then None else Some (createdAt, d))\<rparr>"

text \<open>
  Modelled from the spec: the errors of the missing Generation Engine (sections 4.6
  and 7).
\<close>

datatype generate_error = SessionExpired | SessionConsumed | GenerationPartialFailure

text \<open>
  Modelled from the spec: \<open>generate(session, answers) -> GenerationOutput\<close> of the
  missing Generation Engine (section 4.6): it ``fails with \<open>SessionExpired\<close> if the
  session no longer exists, \<open>SessionConsumed\<close> if \<open>generate\<close> was already called
  once for this id''.  As the session is deleted once the engine completes, ``whether
  generation succeeded or failed'' (section 4.5), and a second call must still answer
  \<open>SessionConsumed\<close> (section 8), the call is recorded first and looked up before the
  session is.  What the engine writes is the parameter \<open>engine\<close>.
\<close>

definition generate ::
  "('d \<Rightarrow> 'a \<Rightarrow> generate_error + 'o) \<Rightarrow> nat \<Rightarrow> nat \<Rightarrow> 'a \<Rightarrow> 'd store \<Rightarrow>
   (generate_error + 'o) \<times> 'd store" where
  "generate engine now i user_answers s =
     (if i \<in> generated s then (Inl SessionConsumed, s)
      else
        let s1 = s\<lparr>generated := insert i (generated s)\<rparr> in
        case get now i s1 of
          (None, s2) \<Rightarrow> (Inl SessionExpired, s2)
        | (Some d, s2) \<Rightarrow> (engine d user_answers, delete i s2))"

text \<open>
  Modelled from the spec: the calls the missing backend makes on the store, each with
  the time it is made at.
\<close>

datatype ('d, 'a) store_call =
    Create nat 'd
  | Get nat nat
  | Delete nat
  | Sweep nat
  | Generate nat nat 'a

text \<open>
  Modelled from the spec: one call on the missing store; the new store and, for a
  \<open>generate\<close>, its answer with the session id.
\<close>

fun store_step ::
  "('d \<Rightarrow> 'a \<Rightarrow> generate_error + 'o) \<Rightarrow> 'd store \<Rightarrow> ('d, 'a) store_call \<Rightarrow>
   'd store \<times> (nat \<times> (generate_error + 'o)) list" where
  "store_step engine s (Create now d) = (snd (create now d s), [])"
| "store_step engine s (Get now i) = (snd (get now i s), [])"
| "store_step engine s (Delete i) = (delete i s, [])"
| "store_step engine s (Sweep now) = (sweep now s, [])"
| "store_step engine s (Generate now i a) =
     (let (r, s') = generate engine now i a s in (s', [(i, r)]))"

text \<open>
  Modelled from the spec: a run of calls on the missing store; the final store and the
  answers of the \<open>generate\<close> calls, in order.
\<close>

fun store_run ::
  "('d \<Rightarrow> 'a \<Rightarrow> generate_error + 'o) \<Rightarrow> 'd store \<Rightarrow> ('d, 'a) store_call list \<Rightarrow>
   'd store \<times> (nat \<times> (generate_error + 'o)) list" where
  "store_run engine s [] = (s, [])"
| "store_run engine s (c # cs) =
     (let (s1, out) = store_step engine s c; (s2, rest) = store_run engine s1 cs
      in (s2, out @ rest))"

text \<open>The answers given to the \<open>generate\<close> calls for one session id.\<close>

definition answers_for ::
  "nat \<Rightarrow> (nat \<times> (generate_error + 'o)) list \<Rightarrow> (generate_error + 'o) list" where
  "answers_for i out = map snd (filter (\<lambda>(j, r). j = i) out)"

text \<open>Whether a call answered with a result.\<close>

fun succeeded :: "'e + 'o \<Rightarrow> bool" where
  "succeeded (Inl e) = False"
| "succeeded (Inr v) = True"


section \<open>Example data\<close>

text \<open>A filled-in form, as a sequence of events from the empty one.\<close>

definition example_form_events :: "input_event list" where
  "example_form_events =
     [SetRulesChecked True, Change Company (ascii ''Acme''), Change Role (ascii ''Engineer''),
      Change Location (ascii ''Remote''), Change JobDescription (replicate 100 0x61),
      SetCvFile (File (ascii ''cv.pdf'') 1000)]"

definition example_form :: input_state where
  "example_form =
     \<lparr>company = ascii ''Acme'', role = ascii ''Engineer'', location = ascii ''Remote'',
      jobDescription = replicate 100 0x61, cvFile = Some (File (ascii ''cv.pdf'') 1000),
      linkedinFile = None, input_error = [], rulesChecked = True\<rparr>"


text \<open>
  A tip shaped as \<open>{text, source}\<close>, a contradiction shaped as
  \<open>{cv_claim, linkedin_claim}\<close>, and an analyze response in the shape the pages read.
\<close>

definition example_text_tip :: jsval where
  "example_text_tip =
     Obj [(ascii ''text'', Str (ascii ''Quantify your results. Use numbers.'')),
          (ascii ''source'', Str (ascii ''ATS guide''))]"

definition example_claim_pair :: jsval where
  "example_claim_pair =
     Obj [(ascii ''cv_claim'', Str (ascii ''Engineer, 2021-2022'')),
          (ascii ''linkedin_claim'', Str (ascii ''Senior Engineer, 2021-present''))]"

definition example_analysis :: jsval where
  "example_analysis =
     Obj [(ascii ''session_id'', Str (ascii ''s1'')),
          (ascii ''questions'',
             Arr [Obj [(ascii ''id'', Str (ascii ''q1'')),
                       (ascii ''question'', Str (ascii ''Which title is right?'')),
                       (ascii ''context'', Str (ascii ''CV and LinkedIn differ''))]]),
          (ascii ''gaps_found'', Arr [Str (ascii ''Kubernetes'')]),
          (ascii ''auto_fixes'', Arr [Str (ascii ''Date format'')]),
          (ascii ''heads_up_tips'',
             Arr [tip_record (ascii ''Use keywords. More.'') (ascii ''ATS guide'') None None]),
          (ascii ''ai_words_detected'', Arr [Str (ascii ''spearheaded'')]),
          (ascii ''linkedin_contradictions'', Arr [Str (ascii ''Title differs'')])]"


text \<open>The page showing results, after a password \<open>pw\<close> was entered.\<close>

definition example_result_state :: app where
  "example_result_state =
     \<lparr>stage = RESULTS, password = ascii ''pw'', analysisData = example_analysis,
      resultData = Obj []\<rparr>"


text \<open>A generation engine.\<close>

definition example_engine :: "string \<Rightarrow> string \<Rightarrow> generate_error + string" where
  "example_engine d a = Inr (d @ a)"

text \<open>
  Typing an answer in three steps; an analysis whose question is called
  \<open>constructor\<close>; a detector that follows the failure policy; and settlements in
  which Culture times out before its result arrives.
\<close>

definition example_typing :: "questions_event list" where
  "example_typing =
     [TypeAnswer 0 (ascii ''S''), TypeAnswer 0 (ascii ''Se''), TypeAnswer 0 (ascii ''Senior'')]"

definition example_constructor_analysis :: jsval where
  "example_constructor_analysis =
     Obj [(ascii ''session_id'', Str (ascii ''s2'')),
          (ascii ''questions'',
             Arr [Obj [(ascii ''id'', Str (ascii ''constructor'')),
                       (ascii ''question'', Str (ascii ''Any evidence?'')),
                       (ascii ''context'', Str (ascii ''A gap''))]])]"





section \<open>Facts about strings\<close>

lemma of_char_less_256: "(of_char c :: nat) < 256"
proof -
  have "(of_char c :: nat) mod 256 < 256" by simp
  then show ?thesis by (simp only: of_char_mod_256)
qed

lemma ascii_eq_iff [simp]: "ascii s = ascii t \<longleftrightarrow> s = t"
proof -
  have "inj (\<lambda>c::char. (of_nat (of_char c) :: 16 word))"
  proof (rule injI)
    fix x y :: char
    assume eq: "(of_nat (of_char x) :: 16 word) = of_nat (of_char y)"
    have "(of_char x :: nat) < 2 ^ 16" "(of_char y :: nat) < 2 ^ 16"
      by (rule less_trans [OF of_char_less_256], simp)+
    with eq have "(of_char x :: nat) = of_char y"
      by (simp add: word_of_nat_eq_iff take_bit_nat_eq_self)
    then show "x = y" by simp
  qed
  then show ?thesis
    unfolding ascii_def by (simp add: inj_map_eq_map)
qed

lemma length_ascii [simp]: "length (ascii s) = length s"
  by (simp add: ascii_def)

lemma ascii_Nil_iff [simp]: "ascii s = [] \<longleftrightarrow> s = []" "[] = ascii s \<longleftrightarrow> s = []"
  by (auto simp: ascii_def)


section \<open>The analyze form sends only complete submissions\<close>

lemma jobDescription_bounded_step:
  "length (jobDescription st) \<le> 8000 \<Longrightarrow> length (jobDescription (input_step pw st ev)) \<le> 8000"
proof (cases ev)
  case (Change f v)
  then show "length (jobDescription st) \<le> 8000 \<Longrightarrow> ?thesis"
    by (cases f) auto
next
  case Submit
  then show "length (jobDescription st) \<le> 8000 \<Longrightarrow> ?thesis"
    by (auto simp: InputStage_handleSubmit_def Let_def split: option.splits)
qed auto

lemma jobDescription_bounded_foldl:
  "length (jobDescription st) \<le> 8000 \<Longrightarrow>
   length (jobDescription (foldl (input_step pw) st evs)) \<le> 8000"
  by (induction evs arbitrary: st) (simp_all add: jobDescription_bounded_step)

lemma jobDescription_bounded: "length (jobDescription (input_run pw evs)) \<le> 8000"
  unfolding input_run_def
  by (rule jobDescription_bounded_foldl) (simp add: InputStage_init_def)

text \<open>
  Claim C9.  In every state the form can reach, a submit sends an analyze request only
  when the rules checkbox is ticked, company, role, location and job description are
  non-empty, a CV file is attached and the job description has at least 100 code units
  (and, by the textarea's \<open>maxLength\<close>, at most 8000); the request then carries that
  file as \<open>cv_file\<close>.  Otherwise nothing is sent and the error line shows one of the
  four messages.
\<close>

theorem handleSubmit_sends_only_complete_forms:
  assumes "st = input_run pw evs"
  shows "case InputStage_handleSubmit pw st of
           (st', Some fd) \<Rightarrow>
             submit_ready st \<and> length (jobDescription st) \<le> 8000 \<and>
             (\<exists>cv. cvFile st = Some cv \<and> entry fd ''cv_file'' = Some (FormFile cv)) \<and>
             input_error st' = []
         | (st', None) \<Rightarrow> \<not> submit_ready st \<and> input_error st' \<in> submit_messages"
proof -
  have "length (jobDescription st) \<le> 8000"
    using assms jobDescription_bounded by simp
  then show ?thesis
    by (auto simp: InputStage_handleSubmit_def submit_ready_def submit_messages_def
        entry_def append_entry_def Let_def split: option.splits)
qed


lemma input_run_example: "input_run pw example_form_events = example_form"
  by (simp add: example_form_events_def example_form_def input_run_def InputStage_init_def)

theorem handleSubmit_sends_only_complete_forms_witness:
  "\<exists>st' fd.
     InputStage_handleSubmit (ascii ''pw'') (input_run (ascii ''pw'') example_form_events)
       = (st', Some fd) \<and>
     entry fd ''cv_file'' = Some (FormFile (File (ascii ''cv.pdf'') 1000)) \<and>
     input_error st' = [] \<and>
     submit_ready (input_run (ascii ''pw'') example_form_events)"
  using handleSubmit_sends_only_complete_forms [OF refl, of "ascii ''pw''" example_form_events]
  by (simp add: input_run_example example_form_def InputStage_handleSubmit_def Let_def
      append_entry_def entry_def)


section \<open>Facts about the JavaScript operations\<close>

lemma bindE_simps [simp]: "bindE (Inl e) f = Inl e" "bindE (Inr v) f = f v"
  by (simp_all add: bindE_def)

lemma map_of_filter_keys:
  "map_of (filter (\<lambda>(k, v). P k) fs) k = (if P k then map_of fs k else None)"
  by (induction fs) auto

lemma member_restrict: "name \<in> set names \<Longrightarrow> member (restrict names v) name = member v name"
  by (cases v) (simp_all add: map_of_filter_keys)

lemma restrict_eq_Undefined_iff [simp]: "restrict names v = Undefined \<longleftrightarrow> v = Undefined"
  by (cases v) simp_all

lemma restrict_eq_Null_iff [simp]: "restrict names v = Null \<longleftrightarrow> v = Null"
  by (cases v) simp_all

lemma read_prop_restrict:
  "name \<in> set names \<Longrightarrow> read_prop (restrict names v) name = read_prop v name"
  by (simp add: read_prop_def member_restrict)

lemma read_opt_restrict:
  "name \<in> set names \<Longrightarrow> read_opt (restrict names v) name = read_opt v name"
  by (simp add: read_opt_def member_restrict)


lemma number_text_simps [simp]:
  "number_text 0 = Inr (ascii ''0'')" "number_text 1 = Inr (ascii ''1'')"
  by (simp_all add: number_text_def digits.simps [of 0] digits.simps [of "Suc 0"] ascii_def)


section \<open>Tips\<close>

lemma tip_card_restrict: "tip_card i (restrict tip_fields t) = tip_card i t"
  by (simp add: tip_card_def read_prop_restrict tip_fields_def)

lemma banner_tag_restrict: "banner_tag i (restrict [''tip''] t) = banner_tag i t"
  by (simp add: banner_tag_def read_prop_restrict)

lemma tip_card_display:
  "display (tip_card i (tip_record a b u c)) =
     Inr (fragment a @
          (if \<exists>x. u = Some x \<and> x \<noteq> [] then [[0x2197, 0x20]] else []) @
          fragment b @
          (case c of None \<Rightarrow> [] | Some x \<Rightarrow> fragment x))"
  by (cases u; cases c)
     (auto simp: display_def tip_card_def tip_record_def read_prop_def fragment_def and_then_def)

lemma banner_tag_display:
  "display (banner_tag i (tip_record a b u c)) =
     Inr (fragment (take 50 (takeWhile (\<lambda>x. x \<noteq> 0x2E) a)))"
  by (simp add: display_def banner_tag_def tip_record_def read_prop_def fragment_def)

text \<open>
  Claim C1, as the claim states it, fails: a tip that carries its advice under
  \<open>text\<close> shows only its source in the ``Heads Up'' card, and the banner of the
  results page throws on it.
\<close>

theorem tip_text_member_is_not_displayed:
  "display (tip_card 0 example_text_tip) = Inr [ascii ''ATS guide''] \<and>
   display (banner_tag 0 example_text_tip) = Inl TypeError"
  by (simp add: example_text_tip_def display_def tip_card_def banner_tag_def read_prop_def
      and_then_def)

text \<open>
  Claim C1, amended.  The pages read the advice of a tip from the member \<open>tip\<close>.
  The card of \<open>QuestionsStage\<close> reads exactly \<open>tip\<close>, \<open>source\<close>, \<open>source_url\<close>
  and \<open>action_taken\<close>; for a tip with these members it displays the advice, the
  source (behind an arrow when a non-empty address makes it a link) and the action
  taken when there is one.  The banner of \<open>ResultsStage\<close> reads only \<open>tip\<close> and
  displays its text up to the first full stop, cut at 50 code units.
\<close>

theorem tips_are_read_from_the_tip_member:
  "tip_card i (restrict tip_fields t) = tip_card i t \<and>
   banner_tag i (restrict [''tip''] t) = banner_tag i t \<and>
   display (tip_card i (tip_record a b u c)) =
     Inr (fragment a @
          (if \<exists>x. u = Some x \<and> x \<noteq> [] then [[0x2197, 0x20]] else []) @
          fragment b @
          (case c of None \<Rightarrow> [] | Some x \<Rightarrow> fragment x)) \<and>
   display (banner_tag i (tip_record a b u c)) =
     Inr (fragment (take 50 (takeWhile (\<lambda>x. x \<noteq> 0x2E) a)))"
  by (simp only: tip_card_restrict banner_tag_restrict tip_card_display banner_tag_display
      simp_thms)

theorem tips_are_read_from_the_tip_member_witness:
  "display (tip_card 0 (tip_record (ascii ''Use keywords. More.'') (ascii ''ATS guide'')
      (Some (ascii ''https://example.org'')) (Some (ascii ''Applied'')))) =
     Inr [ascii ''Use keywords. More.'', [0x2197, 0x20], ascii ''ATS guide'', ascii ''Applied''] \<and>
   display (banner_tag 0 (tip_record (ascii ''Use keywords. More.'') (ascii ''ATS guide'')
      (Some (ascii ''https://example.org'')) (Some (ascii ''Applied'')))) =
     Inr [take 50 (takeWhile (\<lambda>x. x \<noteq> 0x2E) (ascii ''Use keywords. More.''))]"
  using tips_are_read_from_the_tip_member [of 0 Undefined "ascii ''Use keywords. More.''"
      "ascii ''ATS guide''" "Some (ascii ''https://example.org'')" "Some (ascii ''Applied'')"]
  by (simp add: fragment_def ascii_def)


section \<open>LinkedIn mismatches\<close>

text \<open>
  Claim C2, as the claim states it, fails: a contradiction given as a record of
  \<open>cv_claim\<close> and \<open>linkedin_claim\<close> is not displayed at all; React refuses it.
\<close>

theorem claim_pair_is_not_displayed:
  "shown (contradiction_row 0 example_claim_pair) = Inl InvalidChild"
  by (simp add: contradiction_row_def example_claim_pair_def)

text \<open>
  Claim C2, amended.  \<open>QuestionsStage\<close> reads no member of a contradiction: it puts
  every element of \<open>linkedin_contradictions\<close> as it is behind a warning sign, so
  that what is displayed is the sign and whatever React displays of the element
  itself.  An element that is a string is displayed as that string; an element that
  is an object is refused by React.
\<close>

theorem contradictions_are_displayed_as_they_are:
  "shown (contradiction_row i c) = bindE (child_text c) (\<lambda>text. Inr ([0x26A0] # text)) \<and>
   shown (contradiction_row i (Str s)) = Inr ([0x26A0] # fragment s) \<and>
   shown (contradiction_row i (Obj fs)) = Inl InvalidChild"
  by (cases "child_text c") (simp_all add: contradiction_row_def fragment_def)

theorem contradictions_are_displayed_as_they_are_witness:
  "shown (contradiction_row 0 (Str (ascii ''Title differs''))) =
     Inr [[0x26A0], ascii ''Title differs'']"
  using contradictions_are_displayed_as_they_are [of 0 Null "ascii ''Title differs''" "[]"]
  by (simp add: fragment_def)


section \<open>The analyze request and the analysis the page reads\<close>

lemmas view_defs =
  QuestionsStage_def list_of_def read_opt_def read_prop_def or_else_def guarded_def
  heads_up_card_def gaps_card_def ai_words_card_def auto_fixes_card_def
  contradictions_card_def contradiction_row_def questions_card_def question_block_def
  tip_card_def map_index_def answer_value_def and_then_def tip_record_def
  QuestionsStage_init_def inherited_def display_def generate_body_def page_output_def

lemma handleSubmit_form_data:
  assumes "InputStage_handleSubmit pwd st = (st', Some fd)"
  shows "\<exists>cv. cvFile st = Some cv \<and>
           fd = [(ascii ''password'', FormString pwd), (ascii ''company'', FormString (company st)),
                 (ascii ''role'', FormString (role st)), (ascii ''location'', FormString (location st)),
                 (ascii ''job_description'', FormString (jobDescription st)),
                 (ascii ''cv_file'', FormFile cv)] @
                (case linkedinFile st of
                   None \<Rightarrow> []
                 | Some li \<Rightarrow> [(ascii ''linkedin_file'', FormFile li)])"
  using assms
  by (auto simp: InputStage_handleSubmit_def append_entry_def Let_def
      split: if_splits option.splits)

lemma QuestionsStage_restrict:
  "QuestionsStage (restrict analysis_fields d) st = QuestionsStage d st"
  by (simp add: QuestionsStage_def list_of_def read_opt_restrict analysis_fields_def)

lemma generate_body_restrict:
  "generate_body pwd (restrict analysis_fields d) ans = generate_body pwd d ans"
  by (simp add: generate_body_def read_prop_restrict analysis_fields_def)

lemma handleGenerate_restrict:
  "QuestionsStage_handleGenerate msg pwd (restrict analysis_fields d) st =
   QuestionsStage_handleGenerate msg pwd d st"
  by (simp add: QuestionsStage_handleGenerate_def generate_body_restrict)

lemma session_id_is_read:
  "page_output (without ''session_id'' example_analysis) \<noteq> page_output example_analysis"
  by (simp add: example_analysis_def view_defs)

lemma questions_is_read:
  "page_output (without ''questions'' example_analysis) \<noteq> page_output example_analysis"
  by (simp add: example_analysis_def view_defs)

lemma gaps_found_is_read:
  "page_output (without ''gaps_found'' example_analysis) \<noteq> page_output example_analysis"
  by (simp add: example_analysis_def view_defs)

lemma auto_fixes_is_read:
  "page_output (without ''auto_fixes'' example_analysis) \<noteq> page_output example_analysis"
  by (simp add: example_analysis_def view_defs)

lemma heads_up_tips_is_read:
  "page_output (without ''heads_up_tips'' example_analysis) \<noteq> page_output example_analysis"
  by (simp add: example_analysis_def view_defs)

lemma ai_words_detected_is_read:
  "page_output (without ''ai_words_detected'' example_analysis) \<noteq> page_output example_analysis"
  by (simp add: example_analysis_def view_defs)

lemma linkedin_contradictions_is_read:
  "page_output (without ''linkedin_contradictions'' example_analysis) \<noteq>
   page_output example_analysis"
  by (simp add: example_analysis_def view_defs)

text \<open>
  Claim C3.  Whenever the form sends an analyze request, its form data are exactly
  \<open>password\<close>, \<open>company\<close>, \<open>role\<close>, \<open>location\<close>, \<open>job_description\<close> and
  \<open>cv_file\<close>, followed by \<open>linkedin_file\<close> exactly when a LinkedIn file was
  attached.  Of the analysis it received, \<open>QuestionsStage\<close> reads only the seven
  members \<open>session_id\<close>, \<open>questions\<close>, \<open>gaps_found\<close>, \<open>auto_fixes\<close>,
  \<open>heads_up_tips\<close>, \<open>ai_words_detected\<close> and \<open>linkedin_contradictions\<close>:
  neither what it returns nor the generate request changes when all other members
  are removed; and it reads each of the seven: on the example response, removing any
  one of them changes what is displayed or what is sent.
\<close>

theorem analyze_request_and_response_members:
  "(InputStage_handleSubmit pwd st = (st', Some fd) \<longrightarrow>
      (\<exists>cv. cvFile st = Some cv \<and>
         fd = [(ascii ''password'', FormString pwd), (ascii ''company'', FormString (company st)),
               (ascii ''role'', FormString (role st)), (ascii ''location'', FormString (location st)),
               (ascii ''job_description'', FormString (jobDescription st)),
               (ascii ''cv_file'', FormFile cv)] @
              (case linkedinFile st of
                 None \<Rightarrow> []
               | Some li \<Rightarrow> [(ascii ''linkedin_file'', FormFile li)]))) \<and>
   QuestionsStage (restrict analysis_fields d) qs = QuestionsStage d qs \<and>
   QuestionsStage_handleGenerate msg pwd (restrict analysis_fields d) qs =
     QuestionsStage_handleGenerate msg pwd d qs \<and>
   (\<forall>name \<in> set analysis_fields.
      page_output (without name example_analysis) \<noteq> page_output example_analysis)"
proof (intro conjI impI)
  assume "InputStage_handleSubmit pwd st = (st', Some fd)"
  then show "\<exists>cv. cvFile st = Some cv \<and>
         fd = [(ascii ''password'', FormString pwd), (ascii ''company'', FormString (company st)),
               (ascii ''role'', FormString (role st)), (ascii ''location'', FormString (location st)),
               (ascii ''job_description'', FormString (jobDescription st)),
               (ascii ''cv_file'', FormFile cv)] @
              (case linkedinFile st of
                 None \<Rightarrow> []
               | Some li \<Rightarrow> [(ascii ''linkedin_file'', FormFile li)])"
    by (rule handleSubmit_form_data)
next
  show "QuestionsStage (restrict analysis_fields d) qs = QuestionsStage d qs"
    by (rule QuestionsStage_restrict)
next
  show "QuestionsStage_handleGenerate msg pwd (restrict analysis_fields d) qs =
     QuestionsStage_handleGenerate msg pwd d qs"
    by (rule handleGenerate_restrict)
next
  show "\<forall>name \<in> set analysis_fields.
      page_output (without name example_analysis) \<noteq> page_output example_analysis"
    unfolding analysis_fields_def
    using session_id_is_read questions_is_read gaps_found_is_read auto_fixes_is_read
      heads_up_tips_is_read ai_words_detected_is_read linkedin_contradictions_is_read
    by (simp only: list.set ball_simps simp_thms)
qed

theorem analyze_request_and_response_members_witness:
  "(\<exists>st' fd. InputStage_handleSubmit (ascii ''pw'') example_form = (st', Some fd) \<and>
      map fst fd = map ascii [''password'', ''company'', ''role'', ''location'',
        ''job_description'', ''cv_file'']) \<and>
   QuestionsStage (restrict analysis_fields example_analysis) QuestionsStage_init =
     QuestionsStage example_analysis QuestionsStage_init \<and>
   page_output (without ''session_id'' example_analysis) \<noteq> page_output example_analysis"
proof -
  have sent: "InputStage_handleSubmit (ascii ''pw'') example_form =
      (example_form, Some [(ascii ''password'', FormString (ascii ''pw'')),
         (ascii ''company'', FormString (ascii ''Acme'')), (ascii ''role'', FormString (ascii ''Engineer'')),
         (ascii ''location'', FormString (ascii ''Remote'')),
         (ascii ''job_description'', FormString (replicate 100 0x61)),
         (ascii ''cv_file'', FormFile (File (ascii ''cv.pdf'') 1000))])"
    by (simp add: example_form_def InputStage_handleSubmit_def Let_def append_entry_def)
  from analyze_request_and_response_members
    [of "ascii ''pw''" example_form example_form _ example_analysis QuestionsStage_init]
    sent
  show ?thesis
    by (simp add: analysis_fields_def)
qed


section \<open>The generate request\<close>

lemma stringify_answers:
  "map (\<lambda>(k, v). (k, JSON_stringify v))
     (filter (\<lambda>(k, v). v \<noteq> Undefined) (map (\<lambda>(k, a). (k, Str a)) ans)) =
   map (\<lambda>(k, a). (k, Str a)) ans"
  by (induction ans) auto

lemma generate_body_eq:
  "generate_body pwd d ans =
     (if d = Undefined \<or> d = Null then Inl TypeError
      else Inr (Obj ([(ascii ''password'', Str pwd)] @
                     (if member d ''session_id'' = Undefined then []
                      else [(ascii ''session_id'', JSON_stringify (member d ''session_id''))]) @
                     [(ascii ''user_answers'', Obj (map (\<lambda>(k, a). (k, Str a)) ans))])))"
  by (simp add: generate_body_def read_prop_def stringify_answers)

lemma generate_body_password:
  "generate_body pwd d ans = Inr body \<Longrightarrow> member body ''password'' = Str pwd"
  by (auto simp: generate_body_eq split: if_splits)

lemma map_of_set_member: "map_of (set_member k v xs) = (map_of xs)(k \<mapsto> v)"
  by (induction xs) (auto simp: fun_eq_iff)

lemma set_member_keys: "fst ` set (set_member k v xs) = insert k (fst ` set xs)"
  by (induction xs) (force split: if_splits)+

lemma distinct_set_member:
  "distinct (map fst xs) \<Longrightarrow> distinct (map fst (set_member k v xs))"
proof (induction xs)
  case Nil
  then show ?case by simp
next
  case (Cons x xs)
  obtain k' v' where x: "x = (k', v')" by (cases x)
  from Cons show ?case
    using set_member_keys [of k v xs] by (auto simp: x)
qed

lemma typings_append:
  "typings big d (evs @ [ev]) =
     typings big d evs @ (case typing big d ev of None \<Rightarrow> [] | Some ka \<Rightarrow> [ka])"
  by (induction evs) (simp_all split: option.splits)

lemma questions_step_answers:
  "answers (questions_step big msg pwd d st ev) =
     (case typing big d ev of
        None \<Rightarrow> answers st
      | Some (k, val) \<Rightarrow> set_member k val (answers st))"
proof (cases ev)
  case (TypeAnswer i val)
  then show ?thesis
    by (auto simp: question_key_def updateAnswer_def read_prop_def split: sum.splits)
next
  case ClickGenerate
  then show ?thesis
    by (auto simp: QuestionsStage_handleGenerate_def Let_def split: sum.splits)
next
  case (Settled r)
  then show ?thesis
    by (auto simp: QuestionsStage_settled_def split: sum.splits)
qed

lemma typing_key:
  "typing big d ev = Some (k, val) \<Longrightarrow> k \<in> question_keys big d"
  by (cases ev) (auto simp: question_keys_def split: if_splits sum.splits)

lemma questions_run_answers:
  "distinct (map fst (answers (questions_run big msg pwd d evs))) \<and>
   map_of (answers (questions_run big msg pwd d evs)) = last_typed big d evs \<and>
   fst ` set (answers (questions_run big msg pwd d evs)) \<subseteq> question_keys big d"
proof (induction evs rule: rev_induct)
  case Nil
  then show ?case by (simp add: questions_run_def QuestionsStage_init_def last_typed_def)
next
  case (snoc ev evs)
  let ?st = "questions_run big msg pwd d evs"
  have run: "questions_run big msg pwd d (evs @ [ev]) = questions_step big msg pwd d ?st ev"
    by (simp add: questions_run_def)
  show ?case
  proof (cases "typing big d ev")
    case None
    with snoc show ?thesis
      by (simp add: run questions_step_answers last_typed_def typings_append)
  next
    case (Some ka)
    obtain k val where ka: "ka = (k, val)" by (cases ka)
    have "k \<in> question_keys big d"
      using Some ka typing_key by blast
    with snoc Some ka show ?thesis
      by (simp add: run questions_step_answers last_typed_def typings_append
          map_of_set_member distinct_set_member set_member_keys)
  qed
qed

text \<open>
  Claim C4.  In every state the stage can reach, a generate request that is sent has
  as its body exactly the members \<open>password\<close>, \<open>session_id\<close> and
  \<open>user_answers\<close>, the \<open>session_id\<close> being that of the analysis
  (\<open>JSON.stringify\<close> leaves the member out only for an analysis that has none).
  \<open>user_answers\<close> has one member per key; as a dictionary it holds, for every key,
  the text the user typed last into the textarea of a question with that key, and
  nothing for a key never typed for; and every key is that of the id of a question
  of the analysis.
\<close>

theorem generate_request_body:
  assumes "st = questions_run big msg pwd d evs"
    and "QuestionsStage_handleGenerate msg pwd d st = (st', Some body)"
  shows "body = Obj ([(ascii ''password'', Str pwd)] @
                     (if member d ''session_id'' = Undefined then []
                      else [(ascii ''session_id'', JSON_stringify (member d ''session_id''))]) @
                     [(ascii ''user_answers'', Obj (map (\<lambda>(k, a). (k, Str a)) (answers st)))]) \<and>
         distinct (map fst (answers st)) \<and>
         map_of (answers st) = last_typed big d evs \<and>
         fst ` set (answers st) \<subseteq> question_keys big d"
proof -
  from assms(2) have "generate_body pwd d (answers st) = Inr body"
    by (auto simp: QuestionsStage_handleGenerate_def Let_def split: sum.splits)
  then have "body = Obj ([(ascii ''password'', Str pwd)] @
                     (if member d ''session_id'' = Undefined then []
                      else [(ascii ''session_id'', JSON_stringify (member d ''session_id''))]) @
                     [(ascii ''user_answers'', Obj (map (\<lambda>(k, a). (k, Str a)) (answers st)))])"
    by (auto simp: generate_body_eq split: if_splits)
  with questions_run_answers [of big msg pwd d evs] assms(1) show ?thesis by simp
qed

lemma example_questions:
  "questions_of example_analysis =
      [Obj [(ascii ''id'', Str (ascii ''q1'')),
            (ascii ''question'', Str (ascii ''Which title is right?'')),
            (ascii ''context'', Str (ascii ''CV and LinkedIn differ''))]]"
  by (simp add: questions_of_def example_analysis_def list_of_def read_opt_def or_else_def)

lemma example_run:
  "questions_run (\<lambda>n. []) (\<lambda>e. []) (ascii ''pw'') example_analysis example_typing =
     \<lparr>answers = [(ascii ''q1'', ascii ''Senior'')], loading = False, questions_error = []\<rparr>"
  by (simp add: questions_run_def example_typing_def example_questions updateAnswer_def
      read_prop_def QuestionsStage_init_def)

lemma example_constructor_run:
  "questions_run (\<lambda>n. []) (\<lambda>e. []) (ascii ''pw'') example_constructor_analysis
      [TypeAnswer 0 (ascii ''x'')] =
     \<lparr>answers = [(ascii ''constructor'', ascii ''x'')], loading = False, questions_error = []\<rparr>"
  by (simp add: questions_run_def questions_of_def example_constructor_analysis_def list_of_def
      read_opt_def or_else_def updateAnswer_def read_prop_def QuestionsStage_init_def)

theorem generate_request_body_witness:
  "(\<exists>st'. QuestionsStage_handleGenerate (\<lambda>e. []) (ascii ''pw'') example_analysis
       (questions_run (\<lambda>n. []) (\<lambda>e. []) (ascii ''pw'') example_analysis example_typing) =
     (st', Some (Obj [(ascii ''password'', Str (ascii ''pw'')),
                      (ascii ''session_id'', Str (ascii ''s1'')),
                      (ascii ''user_answers'', Obj [(ascii ''q1'', Str (ascii ''Senior''))])]))) \<and>
   last_typed (\<lambda>n. []) example_analysis example_typing (ascii ''q1'') = Some (ascii ''Senior'') \<and>
   answers (questions_run (\<lambda>n. []) (\<lambda>e. []) (ascii ''pw'') example_constructor_analysis
      [TypeAnswer 0 (ascii ''x'')]) = [(ascii ''constructor'', ascii ''x'')]"
proof -
  have sid: "member example_analysis ''session_id'' = Str (ascii ''s1'')"
    by (simp add: example_analysis_def)
  have "\<exists>st' body. QuestionsStage_handleGenerate (\<lambda>e. []) (ascii ''pw'') example_analysis
       (questions_run (\<lambda>n. []) (\<lambda>e. []) (ascii ''pw'') example_analysis example_typing) =
     (st', Some body)"
    by (simp add: example_run QuestionsStage_handleGenerate_def generate_body_eq
        example_analysis_def)
  then obtain st' body where sent:
    "QuestionsStage_handleGenerate (\<lambda>e. []) (ascii ''pw'') example_analysis
       (questions_run (\<lambda>n. []) (\<lambda>e. []) (ascii ''pw'') example_analysis example_typing) =
     (st', Some body)" by blast
  from generate_request_body [OF refl sent] sid
  have body: "body = Obj [(ascii ''password'', Str (ascii ''pw'')),
                      (ascii ''session_id'', Str (ascii ''s1'')),
                      (ascii ''user_answers'', Obj [(ascii ''q1'', Str (ascii ''Senior''))])]"
    and last: "map_of [(ascii ''q1'', ascii ''Senior'')] =
      last_typed (\<lambda>n. []) example_analysis example_typing"
    by (simp_all add: example_run)
  from last have "last_typed (\<lambda>n. []) example_analysis example_typing (ascii ''q1'') =
      Some (ascii ''Senior'')"
    by (metis map_of_Cons_code(2))
  with sent body show ?thesis by (simp add: example_constructor_run)
qed


section \<open>Restart and the password\<close>

lemma app_step_stage:
  "stage s \<noteq> PASSWORD \<Longrightarrow> stage (fst (app_step msg s ev)) \<noteq> PASSWORD"
  by (cases ev)
     (auto simp: handleAnalyze_def handleGenerate_def handleRestart_def
        split: option.splits sum.splits)

lemma app_step_password:
  "stage s \<noteq> PASSWORD \<Longrightarrow> password (fst (app_step msg s ev)) = password s"
  by (cases ev)
     (auto simp: handleAnalyze_def handleGenerate_def handleRestart_def
        split: option.splits sum.splits)

lemma app_step_requests:
  assumes "r \<in> set (snd (app_step msg s ev))"
  shows "request_password r = Some (FormString (password s))"
proof (cases ev)
  case (FormSubmit st)
  with assms obtain st' fd where sent: "InputStage_handleSubmit (password s) st = (st', Some fd)"
    and r: "r = AnalyzeRequest fd"
    by (cases "InputStage_handleSubmit (password s) st") (auto split: if_splits option.splits)
  from handleSubmit_form_data [OF sent] r show ?thesis by auto
next
  case (GenerateClick st)
  with assms obtain body where
    "generate_body (password s) (analysisData s) (answers st) = Inr body" "r = GenerateRequest body"
    by (auto simp: QuestionsStage_handleGenerate_def Let_def split: if_splits option.splits sum.splits)
  then show ?thesis by (simp add: generate_body_password)
qed (use assms in \<open>auto split: sum.splits if_splits\<close>)

lemma app_run_invariant:
  assumes "stage s \<noteq> PASSWORD"
  shows "stage (fst (app_run msg s evs)) \<noteq> PASSWORD \<and>
         password (fst (app_run msg s evs)) = password s \<and>
         (\<forall>r \<in> set (snd (app_run msg s evs)). request_password r = Some (FormString (password s)))"
  using assms
proof (induction evs arbitrary: s)
  case Nil
  then show ?case by simp
next
  case (Cons ev evs)
  let ?s1 = "fst (app_step msg s ev)"
  have s1: "stage ?s1 \<noteq> PASSWORD" "password ?s1 = password s"
    using Cons.prems by (simp_all add: app_step_stage app_step_password)
  from Cons.IH [OF s1(1)] s1(2) app_step_requests [of _ msg s ev]
  show ?case
    by (auto simp: split_beta Let_def)
qed

lemma app_run_append:
  "app_run msg s (evs1 @ evs2) =
     (let (s1, sent1) = app_run msg s evs1; (s2, sent2) = app_run msg s1 evs2
      in (s2, sent1 @ sent2))"
  by (induction evs1 arbitrary: s) (simp_all add: split_beta Let_def)

text \<open>
  Claim C10.  The restart action, available on the results page, only resets the
  analysis and the results and shows the input form: the password is left as it was.
  Whatever happens afterwards, the password stage is not shown again, the password
  stays the same, and every analyze and generate request sent carries it.  From the
  load of the page on, once the password stage has been left it is never shown again.
\<close>

theorem restart_keeps_the_password:
  "(stage s = RESULTS \<longrightarrow>
      stage (handleRestart s) = INPUT \<and> analysisData (handleRestart s) = Null \<and>
      resultData (handleRestart s) = Null \<and> password (handleRestart s) = password s \<and>
      fst (app_step msg s Restart) = handleRestart s \<and>
      stage (fst (app_run msg s (Restart # evs))) \<noteq> PASSWORD \<and>
      password (fst (app_run msg s (Restart # evs))) = password s \<and>
      (\<forall>r \<in> set (snd (app_run msg s (Restart # evs))).
         request_password r = Some (FormString (password s)))) \<and>
   (stage (fst (app_run msg App_init evs1)) \<noteq> PASSWORD \<longrightarrow>
      stage (fst (app_run msg App_init (evs1 @ evs2))) \<noteq> PASSWORD)"
proof (intro conjI impI)
  assume res: "stage s = RESULTS"
  show "stage (handleRestart s) = INPUT" "analysisData (handleRestart s) = Null"
    "resultData (handleRestart s) = Null" "password (handleRestart s) = password s"
    by (simp_all add: handleRestart_def)
  from res show step: "fst (app_step msg s Restart) = handleRestart s" by simp
  have inp: "stage (handleRestart s) \<noteq> PASSWORD" "password (handleRestart s) = password s"
    by (simp_all add: handleRestart_def)
  have run: "app_run msg s (Restart # evs) = app_run msg (handleRestart s) evs"
    using res by (simp add: split_beta)
  from app_run_invariant [OF inp(1), of msg evs] inp(2)
  show "stage (fst (app_run msg s (Restart # evs))) \<noteq> PASSWORD"
    "password (fst (app_run msg s (Restart # evs))) = password s"
    "\<forall>r \<in> set (snd (app_run msg s (Restart # evs))).
         request_password r = Some (FormString (password s))"
    unfolding run by simp_all
next
  assume "stage (fst (app_run msg App_init evs1)) \<noteq> PASSWORD"
  from app_run_invariant [OF this, of msg evs2]
  show "stage (fst (app_run msg App_init (evs1 @ evs2))) \<noteq> PASSWORD"
    by (simp add: app_run_append split_beta)
qed

theorem restart_keeps_the_password_witness:
  "stage example_result_state = RESULTS \<and>
   fst (app_run (\<lambda>e. []) example_result_state [Restart, FormSubmit example_form]) =
     \<lparr>stage = ANALYZING, password = ascii ''pw'', analysisData = Null, resultData = Null\<rparr> \<and>
   map request_password
     (snd (app_run (\<lambda>e. []) example_result_state [Restart, FormSubmit example_form])) =
     [Some (FormString (ascii ''pw''))]"
proof -
  have sent: "InputStage_handleSubmit (ascii ''pw'') example_form =
      (example_form, Some [(ascii ''password'', FormString (ascii ''pw'')),
         (ascii ''company'', FormString (ascii ''Acme'')), (ascii ''role'', FormString (ascii ''Engineer'')),
         (ascii ''location'', FormString (ascii ''Remote'')),
         (ascii ''job_description'', FormString (replicate 100 0x61)),
         (ascii ''cv_file'', FormFile (File (ascii ''cv.pdf'') 1000))])"
    by (simp add: example_form_def InputStage_handleSubmit_def Let_def append_entry_def)
  from restart_keeps_the_password
    [of example_result_state "\<lambda>e. []" "[FormSubmit example_form]" "[]" "[]"]
  show ?thesis
    by (simp add: example_result_state_def handleRestart_def sent)
qed



section \<open>The backend: intelligence gathering\<close>



lemma foldl_settle:
  "foldl (\<lambda>queries (c, outcome). settle c outcome queries) queries settlements c =
     (case queries c of None \<Rightarrow> map_of settlements c | Some outcome \<Rightarrow> Some outcome)"
proof (induction settlements arbitrary: queries)
  case Nil
  then show ?case by (simp split: option.splits)
next
  case (Cons x xs)
  obtain c' outcome where x: "x = (c', outcome)" by (cases x)
  let ?step = "\<lambda>queries (c, outcome). settle c outcome queries"
  have "foldl ?step queries (x # xs) c = foldl ?step (settle c' outcome queries) xs c"
    by (simp add: x)
  also have "\<dots> = (case settle c' outcome queries c of
                      None \<Rightarrow> map_of xs c | Some earlier \<Rightarrow> Some earlier)"
    by (rule Cons.IH)
  also have "\<dots> = (case queries c of
                      None \<Rightarrow> map_of (x # xs) c | Some earlier \<Rightarrow> Some earlier)"
    by (simp add: x settle_def split: option.splits)
  finally show ?case .
qed

lemma queries_after_first: "queries_after settlements = first_settlement settlements"
  by (rule ext) (simp add: queries_after_def first_settlement_def foldl_settle)

lemma gather_run_eq:
  "gather_run settlements =
     (case (first_settlement settlements ATS, first_settlement settlements Culture,
            first_settlement settlements RoleC) of
        (Some ats, Some culture, Some role_c) \<Rightarrow> Some (gather ats culture role_c)
      | _ \<Rightarrow> None)"
  by (simp add: gather_run_def queries_after_first Let_def)




lemma gather_run_other_error: "gather_run settlements \<noteq> Some (Inl InvalidInput)"
  by (auto simp: gather_run_eq gather_def Let_def split: option.splits)






section \<open>The backend: at most one generation per session\<close>

lemma generated_step: "generated s \<subseteq> generated (fst (store_step engine s c))"
  by (cases c)
     (auto simp: create_def get_def delete_def sweep_def generate_def Let_def
        split: option.splits if_splits prod.splits)

lemma consumed_step:
  assumes "i \<in> generated s"
  shows "set (answers_for i (snd (store_step engine s c))) \<subseteq> {Inl SessionConsumed}"
  using assms
  by (cases c) (auto simp: answers_for_def generate_def Let_def split: prod.splits if_splits)

lemma answers_for_append [simp]:
  "answers_for i (xs @ ys) = answers_for i xs @ answers_for i ys"
  by (simp add: answers_for_def)

lemma consumed_run:
  assumes "i \<in> generated s"
  shows "set (answers_for i (snd (store_run engine s cs))) \<subseteq> {Inl SessionConsumed}"
  using assms
proof (induction cs arbitrary: s)
  case Nil
  then show ?case by (simp add: answers_for_def)
next
  case (Cons c cs)
  have "i \<in> generated (fst (store_step engine s c))"
    using Cons.prems generated_step by blast
  from Cons.IH [OF this] consumed_step [OF Cons.prems, of engine c]
  show ?case by (auto simp: split_beta Let_def)
qed

lemma generate_records: "i \<in> generated (snd (generate engine now i a s))"
  by (auto simp: generate_def get_def delete_def Let_def split: option.splits prod.splits)

lemma first_generate_run:
  "\<exists>n. tl (answers_for i (snd (store_run engine s cs))) = replicate n (Inl SessionConsumed)"
proof (induction cs arbitrary: s)
  case Nil
  then show ?case by (simp add: answers_for_def)
next
  case (Cons c cs)
  show ?case
  proof (cases "answers_for i (snd (store_step engine s c)) = []")
    case True
    with Cons.IH [of "fst (store_step engine s c)"] show ?thesis
      by (simp add: split_beta Let_def)
  next
    case False
    then obtain now a where c: "c = Generate now i a"
      by (cases c) (auto simp: answers_for_def split_beta Let_def split: if_splits)
    have "i \<in> generated (fst (store_step engine s c))"
      using generate_records [of i engine now a s] by (simp add: c split_beta)
    from consumed_run [OF this, of engine cs]
    have "\<exists>n. answers_for i (snd (store_run engine (fst (store_step engine s c)) cs)) =
        replicate n (Inl SessionConsumed)"
      by (metis replicate_eqI subset_singletonD insert_absorb insert_not_empty singletonD subsetD)
    then show ?thesis
      by (auto simp: c split_beta Let_def answers_for_def)
  qed
qed

text \<open>
  Claim C5.  In every run of calls on the store, from any state of it, the
  \<open>generate\<close> calls for one session id are answered \<open>SessionConsumed\<close> from the
  second on, so at most one of them (the first) succeeds; in particular a
  \<open>generate\<close> directly after a \<open>generate\<close> for the same id answers
  \<open>SessionConsumed\<close>.
\<close>

theorem second_generate_is_consumed:
  "(\<exists>n. tl (answers_for i (snd (store_run engine s cs))) = replicate n (Inl SessionConsumed)) \<and>
   length (filter succeeded (answers_for i (snd (store_run engine s cs)))) \<le> 1 \<and>
   fst (generate engine t2 i a2 (snd (generate engine t1 i a1 s))) = Inl SessionConsumed"
proof -
  obtain n where n: "tl (answers_for i (snd (store_run engine s cs))) =
      replicate n (Inl SessionConsumed)"
    using first_generate_run by blast
  have "length (filter succeeded (answers_for i (snd (store_run engine s cs)))) \<le> 1"
  proof (cases "answers_for i (snd (store_run engine s cs))")
    case Nil
    then show ?thesis by simp
  next
    case (Cons r rs)
    with n have "rs = replicate n (Inl SessionConsumed)" by simp
    then have "filter succeeded rs = []" by (simp add: filter_empty_conv)
    with Cons show ?thesis by simp
  qed
  moreover have "fst (generate engine t2 i a2 (snd (generate engine t1 i a1 s))) =
      Inl SessionConsumed"
    using generate_records [of i engine t1 a1 s] by (simp add: generate_def)
  ultimately show ?thesis using n by blast
qed

theorem second_generate_is_consumed_witness:
  "answers_for 0 (snd (store_run example_engine empty_store
      [Create 0 ''cv '', Generate 10 0 ''a1'', Generate 20 0 ''a2''])) =
     [Inr ''cv a1'', Inl SessionConsumed]"
  using second_generate_is_consumed [of 0 example_engine empty_store
      "[Create 0 ''cv '', Generate 10 0 ''a1'', Generate 20 0 ''a2'']" 20 "''a2''" 10 "''a1''"]
  by (simp add: answers_for_def empty_store_def create_def generate_def get_def delete_def
      expired_def ttl_def example_engine_def Let_def)

end
